theory Spec2Isabelle
  imports Complex_Main "HOL-Library.Multiset"
begin

section \<open>Numbers\<close>

text \<open>
  The simulation computes with Python floats and numpy float arrays. They are embedded as
  the reals extended by the three special values of IEEE arithmetic. Arithmetic on finite
  values is exact: rounding, overflow and the sign of zero are not part of the model.
  What is part of it is how numpy treats a zero divisor: dividing an array by zero raises
  nothing, it yields \<open>nan\<close> (for \<open>0/0\<close>) or an infinity, and every comparison
  with \<open>nan\<close> is false.
\<close>

datatype fl = Fin real | PInf | NInf | NaN


fun fneg :: "fl \<Rightarrow> fl" where
  "fneg (Fin x) = Fin (- x)"
| "fneg PInf = NInf"
| "fneg NInf = PInf"
| "fneg NaN = NaN"

fun fadd :: "fl \<Rightarrow> fl \<Rightarrow> fl" where
  "fadd (Fin x) (Fin y) = Fin (x + y)"
| "fadd NaN b = NaN"
| "fadd a NaN = NaN"
| "fadd PInf NInf = NaN"
| "fadd NInf PInf = NaN"
| "fadd PInf b = PInf"
| "fadd a PInf = PInf"
| "fadd NInf b = NInf"
| "fadd a NInf = NInf"

definition fsub :: "fl \<Rightarrow> fl \<Rightarrow> fl" where
  "fsub a b = fadd a (fneg b)"

text \<open>The sign of a value that is not \<open>nan\<close>: \<open>1\<close>, \<open>0\<close> or \<open>-1\<close>.\<close>

fun fsign :: "fl \<Rightarrow> int" where
  "fsign (Fin x) = (if 0 < x then 1 else if x < 0 then - 1 else 0)"
| "fsign PInf = 1"
| "fsign NInf = - 1"
| "fsign NaN = 0"

fun fmul :: "fl \<Rightarrow> fl \<Rightarrow> fl" where
  "fmul (Fin x) (Fin y) = Fin (x * y)"
| "fmul NaN b = NaN"
| "fmul a NaN = NaN"
| "fmul a b =
     (if fsign a * fsign b = 0 then NaN
      else if 0 < fsign a * fsign b then PInf else NInf)"

fun fdiv :: "fl \<Rightarrow> fl \<Rightarrow> fl" where
  "fdiv (Fin x) (Fin y) =
     (if y = 0 then (if x = 0 then NaN else if 0 < x then PInf else NInf)
      else Fin (x / y))"
| "fdiv NaN b = NaN"
| "fdiv a NaN = NaN"
| "fdiv (Fin x) b = Fin 0"
| "fdiv a (Fin y) = (if 0 \<le> fsign a * fsign (Fin y) then a else fneg a)"
| "fdiv a b = NaN"

text \<open>Python's \<open>%\<close> on floats: the result has the sign of the divisor.\<close>

fun fmod :: "fl \<Rightarrow> fl \<Rightarrow> fl" where
  "fmod (Fin x) (Fin y) =
     (if y = 0 then NaN else Fin (x - y * of_int \<lfloor>x / y\<rfloor>))"
| "fmod NaN b = NaN"
| "fmod a NaN = NaN"
| "fmod (Fin x) PInf = (if 0 \<le> x then Fin x else PInf)"
| "fmod (Fin x) NInf = (if x \<le> 0 then Fin x else NInf)"
| "fmod a b = NaN"

fun fsqrt :: "fl \<Rightarrow> fl" where
  "fsqrt (Fin x) = (if x < 0 then NaN else Fin (sqrt x))"
| "fsqrt PInf = PInf"
| "fsqrt NInf = NaN"
| "fsqrt NaN = NaN"

text \<open>\<open>a < b\<close>; \<open>a > b\<close> is \<open>fless b a\<close>. False whenever an operand is \<open>nan\<close>.\<close>

fun fless :: "fl \<Rightarrow> fl \<Rightarrow> bool" where
  "fless (Fin x) (Fin y) = (x < y)"
| "fless NaN b = False"
| "fless a NaN = False"
| "fless a NInf = False"
| "fless PInf b = False"
| "fless a b = True"

definition fgreater :: "fl \<Rightarrow> fl \<Rightarrow> bool" where
  "fgreater a b = fless b a"

text \<open>A Python \<open>int\<close> used in float arithmetic.\<close>

definition of_py_int :: "int \<Rightarrow> fl" where
  "of_py_int i = Fin (of_int i)"

subsection \<open>Arrays of two floats\<close>

type_synonym vec = "fl \<times> fl"

definition vadd :: "vec \<Rightarrow> vec \<Rightarrow> vec" where
  "vadd a b = (fadd (fst a) (fst b), fadd (snd a) (snd b))"

definition vsub :: "vec \<Rightarrow> vec \<Rightarrow> vec" where
  "vsub a b = (fsub (fst a) (fst b), fsub (snd a) (snd b))"

text \<open>\<open>c * v\<close> and \<open>v / c\<close> for a scalar \<open>c\<close>.\<close>

definition vscale :: "fl \<Rightarrow> vec \<Rightarrow> vec" where
  "vscale c v = (fmul c (fst v), fmul c (snd v))"

definition vdiv :: "vec \<Rightarrow> fl \<Rightarrow> vec" where
  "vdiv v c = (fdiv (fst v) c, fdiv (snd v) c)"

text \<open>\<open>v[0] += c\<close>.\<close>

definition add_x :: "vec \<Rightarrow> fl \<Rightarrow> vec" where
  "add_x v c = (fadd (fst v) c, snd v)"

text \<open>\<open>np.linalg.norm(v)\<close> and \<open>np.dot(a, b)\<close>.\<close>

definition linalg_norm :: "vec \<Rightarrow> fl" where
  "linalg_norm v = fsqrt (fadd (fmul (fst v) (fst v)) (fmul (snd v) (snd v)))"

definition dot :: "vec \<Rightarrow> vec \<Rightarrow> fl" where
  "dot a b = fadd (fmul (fst a) (fst b)) (fmul (snd a) (snd b))"

definition zero_vec :: vec where
  "zero_vec = (Fin 0, Fin 0)"

section \<open>Junctions\<close>

text \<open>
  A junction object is identified by its index in the substrate's \<open>junctions\<close> list
  (the engine only ever appends to that list), so \<open>adjacent\<close> is a list of indices.
  Fields whose names occur in more than one class carry the prefix \<open>j_\<close>, \<open>t_\<close>.
\<close>

record junction =
  position :: vec
  velocity :: vec
  j_vector :: vec
  j_flowing :: bool
  growing :: bool
  anchor :: bool
  j_flowrate :: vec
  j_dragrate :: fl
  cross :: int
  j_width :: fl
  adjacent :: "nat list"
  just_split :: bool

definition Junction :: "fl \<Rightarrow> fl \<Rightarrow> junction" where
  "Junction x y =
     \<lparr>position = (x, y), velocity = zero_vec, j_vector = zero_vec,
      j_flowing = False, growing = False, anchor = False,
      j_flowrate = zero_vec, j_dragrate = Fin 1, cross = 0, j_width = Fin 0,
      adjacent = [], just_split = True\<rparr>"

text \<open>\<open>self.position[0] %= self.width; self.cross = 0\<close>\<close>

definition wrap_position :: "junction \<Rightarrow> junction" where
  "wrap_position j =
     j\<lparr>position := (fmod (fst (position j)) (j_width j), snd (position j)),
       cross := 0\<rparr>"

definition moveJunction :: "junction \<Rightarrow> junction" where
  "moveJunction j =
     (let ja = (if \<not> anchor j
                then (let jp = (if cross j > 0 then wrap_position j else j)
                      in (if cross jp < 0 then wrap_position jp else jp))
                else j);
          jb = (if j_flowing ja
                then ja\<lparr>position := vadd (position ja) (j_flowrate ja)\<rparr>
                else ja)
      in (if \<not> anchor jb
          then (let jc = jb\<lparr>position := vadd (position jb) (velocity jb)\<rparr>
                in jc\<lparr>velocity := vscale (j_dragrate jc) (velocity jc)\<rparr>)
          else jb))"

section \<open>Tubules\<close>

text \<open>
  A tubule refers to its two junctions by index. \<open>to_remove\<close> stands for the
  attribute \<open>t.to_remove = t\<close> that marks a tubule for the driver's sweep: the
  attribute is present exactly when the field is \<open>True\<close>.
\<close>

record tubule =
  j1 :: nat
  j2 :: nat
  t_width :: fl
  crossover :: int
  t_vector :: vec
  t_norm :: fl
  t_unit :: vec
  t_hookes :: fl
  t_growth :: fl
  t_contracting :: bool
  to_remove :: bool

text \<open>
  \<open>Tubule.__init__\<close>: \<open>width\<close> and \<open>crossover\<close> are still \<open>0\<close> when the
  vector is computed, and \<open>unit\<close> is an unguarded division by the norm.
\<close>

definition Tubule :: "junction list \<Rightarrow> nat \<Rightarrow> nat \<Rightarrow> tubule" where
  "Tubule js a b =
     (let v0 = vsub (position (js ! b)) (position (js ! a));
          v = add_x v0 (fmul (of_py_int 0) (of_py_int 0))
      in \<lparr>j1 = a, j2 = b, t_width = of_py_int 0, crossover = 0,
          t_vector = v, t_norm = linalg_norm v, t_unit = vdiv v (linalg_norm v),
          t_hookes = of_py_int 0, t_growth = of_py_int 0, t_contracting = True,
          to_remove = False\<rparr>)"

definition updateTubule :: "junction list \<Rightarrow> tubule \<Rightarrow> tubule" where
  "updateTubule js t =
     (let v1 = vsub (t_vector t) (t_vector t);
          v2 = vadd v1 (position (js ! j2 t));
          v3 = add_x v2 (fmul (t_width t) (of_py_int (crossover t)));
          v4 = vsub v3 (position (js ! j1 t))
      in t\<lparr>t_vector := v4, t_norm := linalg_norm v4,
           t_unit := vdiv v4 (linalg_norm v4)\<rparr>)"

definition contractTubule :: "tubule \<Rightarrow> junction list \<Rightarrow> junction list" where
  "contractTubule t js =
     (let ja = (if \<not> anchor (js ! j1 t) \<and> t_contracting t
                then js[j1 t := (js ! j1 t)
                       \<lparr>velocity := vadd (velocity (js ! j1 t))
                                        (vscale (t_hookes t) (t_vector t))\<rparr>]
                else js)
      in (if \<not> anchor (ja ! j2 t) \<and> t_contracting t
          then ja[j2 t := (ja ! j2 t)
                 \<lparr>velocity := vsub (velocity (ja ! j2 t))
                                  (vscale (t_hookes t) (t_vector t))\<rparr>]
          else ja))"

definition growTubule :: "tubule \<Rightarrow> junction list \<Rightarrow> junction list" where
  "growTubule t js =
     (let ja = (if growing (js ! j1 t)
                then js[j1 t := (js ! j1 t)
                       \<lparr>velocity := vsub (velocity (js ! j1 t))
                                        (vscale (t_hookes t) (t_vector t)),
                        position := vsub (position (js ! j1 t))
                                        (vdiv (vscale (t_growth t) (t_vector t)) (t_norm t))\<rparr>]
                else js)
      in (if growing (ja ! j2 t)
          then ja[j2 t := (ja ! j2 t)
                 \<lparr>velocity := vadd (velocity (ja ! j2 t))
                                  (vscale (t_hookes t) (t_vector t)),
                  position := vadd (position (ja ! j2 t))
                                  (vdiv (vscale (t_growth t) (t_vector t)) (t_norm t))\<rparr>]
          else ja))"

section \<open>The substrate\<close>

datatype jfun = F_moveJunction | F_boundSubstrate | F_mergeTubule

datatype tfun =
  F_updateTubule | F_contractTubule | F_growTubule | F_pruneTubule | F_wrapSubstrate

record substrate =
  width :: fl
  height :: fl
  bound_x :: bool
  wrap_x :: bool
  flowing :: bool
  flowrate :: vec
  dragrate :: fl
  hookes :: fl
  growth :: fl
  contracting :: bool
  junctions :: "junction list"
  tubules :: "tubule list"
  j_functions :: "jfun list"
  t_functions :: "tfun list"

text \<open>
  Keyword arguments: one optional field for each key a caller may pass.
  \<open>kget\<close> is \<open>kargs.get(key, default)\<close>.
\<close>

definition kget :: "'a option \<Rightarrow> 'a \<Rightarrow> 'a" where
  "kget v d = (case v of None \<Rightarrow> d | Some x \<Rightarrow> x)"

record substrate_kargs =
  sk_bound_x :: "bool option"
  sk_wrap_x :: "bool option"
  sk_flowing :: "bool option"
  sk_flowrate :: "vec option"
  sk_dragrate :: "fl option"
  sk_hookes :: "fl option"
  sk_growth :: "fl option"
  sk_contracting :: "bool option"

record junction_kargs =
  jk_anchor :: "bool option"
  jk_growing :: "bool option"
  jk_flowing :: "bool option"
  jk_flowrate :: "vec option"
  jk_dragrate :: "fl option"
  jk_width :: "fl option"
  jk_cross :: "int option"

record tubule_kargs =
  tk_hookes :: "fl option"
  tk_growth :: "fl option"
  tk_width :: "fl option"
  tk_crossover :: "int option"

definition no_substrate_kargs :: substrate_kargs where
  "no_substrate_kargs =
     \<lparr>sk_bound_x = None, sk_wrap_x = None, sk_flowing = None, sk_flowrate = None,
      sk_dragrate = None, sk_hookes = None, sk_growth = None, sk_contracting = None\<rparr>"

definition no_junction_kargs :: junction_kargs where
  "no_junction_kargs =
     \<lparr>jk_anchor = None, jk_growing = None, jk_flowing = None, jk_flowrate = None,
      jk_dragrate = None, jk_width = None, jk_cross = None\<rparr>"

definition no_tubule_kargs :: tubule_kargs where
  "no_tubule_kargs =
     \<lparr>tk_hookes = None, tk_growth = None, tk_width = None, tk_crossover = None\<rparr>"

definition Substrate :: "fl \<Rightarrow> fl \<Rightarrow> substrate_kargs \<Rightarrow> substrate" where
  "Substrate w h k =
     \<lparr>width = w, height = h,
      bound_x = kget (sk_bound_x k) False,
      wrap_x = kget (sk_wrap_x k) True,
      flowing = kget (sk_flowing k) False,
      flowrate = kget (sk_flowrate k) (Fin 0, Fin (- (1 / 10000000))),
      dragrate = kget (sk_dragrate k) (Fin (99 / 100)),
      hookes = kget (sk_hookes k) (Fin (5 / 100000)),
      growth = kget (sk_growth k) (Fin (1 / 2)),
      contracting = kget (sk_contracting k) True,
      junctions = [], tubules = [], j_functions = [], t_functions = []\<rparr>"

subsection \<open>The pipeline registry\<close>

definition function_dict :: "string \<Rightarrow> (jfun + tfun) option" where
  "function_dict name =
     (if name = ''moveJunction'' then Some (Inl F_moveJunction)
      else if name = ''boundSubstrate'' then Some (Inl F_boundSubstrate)
      else if name = ''mergeTubule'' then Some (Inl F_mergeTubule)
      else if name = ''updateTubule'' then Some (Inr F_updateTubule)
      else if name = ''contractTubule'' then Some (Inr F_contractTubule)
      else if name = ''growTubule'' then Some (Inr F_growTubule)
      else if name = ''pruneTubule'' then Some (Inr F_pruneTubule)
      else if name = ''wrapSubstrate'' then Some (Inr F_wrapSubstrate)
      else None)"

text \<open>An unknown name only prints a message.\<close>

fun addFunctions :: "substrate \<Rightarrow> string list \<Rightarrow> substrate" where
  "addFunctions s [] = s"
| "addFunctions s (func # rest) =
     addFunctions
       (case function_dict func of
          Some (Inl f) \<Rightarrow> s\<lparr>j_functions := j_functions s @ [f]\<rparr>
        | Some (Inr f) \<Rightarrow> s\<lparr>t_functions := t_functions s @ [f]\<rparr>
        | None \<Rightarrow> s)
       rest"

subsection \<open>Factories\<close>

text \<open>Both factories return the new state and the index of the new entity.\<close>

definition addJunction :: "substrate \<Rightarrow> fl \<Rightarrow> fl \<Rightarrow> junction_kargs \<Rightarrow> substrate \<times> nat" where
  "addJunction s x y k =
     (let junction = (Junction x y)
            \<lparr>anchor := kget (jk_anchor k) False,
             growing := kget (jk_growing k) False,
             j_flowing := kget (jk_flowing k) (flowing s),
             j_flowrate := kget (jk_flowrate k) (flowrate s),
             j_dragrate := kget (jk_dragrate k) (dragrate s),
             j_width := kget (jk_width k) (width s),
             cross := kget (jk_cross k) 0\<rparr>
      in (s\<lparr>junctions := junctions s @ [junction]\<rparr>, length (junctions s)))"

text \<open>\<open>j.adjacent.append(k)\<close> on the junction with index \<open>j\<close>.\<close>

definition adjacent_append :: "junction list \<Rightarrow> nat \<Rightarrow> nat \<Rightarrow> junction list" where
  "adjacent_append js j k = js[j := (js ! j)\<lparr>adjacent := adjacent (js ! j) @ [k]\<rparr>]"

text \<open>
  \<open>j.adjacent.remove(k)\<close>: the first occurrence goes. Python raises \<open>ValueError\<close>
  when there is none; \<open>splitTubule\<close> catches it, and \<open>mergeTubule\<close> removes only
  what \<open>addTubule\<close> has just appended, so in both callers an absent entry leaves the
  list as it is.
\<close>

definition adjacent_remove :: "junction list \<Rightarrow> nat \<Rightarrow> nat \<Rightarrow> junction list" where
  "adjacent_remove js j k = js[j := (js ! j)\<lparr>adjacent := remove1 k (adjacent (js ! j))\<rparr>]"

definition addTubule :: "substrate \<Rightarrow> nat \<Rightarrow> nat \<Rightarrow> tubule_kargs \<Rightarrow> substrate \<times> nat" where
  "addTubule s a b k =
     (let tubule = (Tubule (junctions s) a b)
            \<lparr>t_hookes := kget (tk_hookes k) (hookes s),
             t_growth := kget (tk_growth k) (growth s),
             t_width := kget (tk_growth k) (width s),
             crossover := kget (tk_crossover k) 0\<rparr>;
          js = adjacent_append (adjacent_append (junctions s) a b) b a
      in (s\<lparr>junctions := js, tubules := tubules s @ [tubule]\<rparr>, length (tubules s)))"

text \<open>\<open>t.to_remove = t\<close> on the tubule with index \<open>i\<close>.\<close>

definition mark_to_remove :: "substrate \<Rightarrow> nat \<Rightarrow> substrate" where
  "mark_to_remove s i = s\<lparr>tubules := (tubules s)[i := (tubules s ! i)\<lparr>to_remove := True\<rparr>]\<rparr>"

definition crossover_kargs :: "int \<Rightarrow> tubule_kargs" where
  "crossover_kargs c = no_tubule_kargs\<lparr>tk_crossover := Some c\<rparr>"

subsection \<open>Splitting\<close>

text \<open>\<open>sum(t.norm for t in self.tubules)\<close>, which starts from the integer \<open>0\<close>.\<close>

definition sys_len :: "substrate \<Rightarrow> fl" where
  "sys_len s = foldl fadd (of_py_int 0) (map t_norm (tubules s))"

text \<open>
  The crossover corrections for the two tubules that replace \<open>t\<close>, from the x
  coordinate of the point that joins them. \<open>splitTubule\<close> and \<open>mergeTubule\<close> hold
  the same lines, with \<open>s1_pos[0]\<close> and \<open>j.position[0]\<close> for \<open>x\<close>. The result is
  the pair of corrections for the tubule towards \<open>t.j1\<close> and the one towards \<open>t.j2\<close>.
\<close>

definition crossover_correction :: "junction list \<Rightarrow> tubule \<Rightarrow> fl \<Rightarrow> int \<times> int" where
  "crossover_correction js t x =
     (if crossover t > 0
      then (if fless x (fst (position (js ! j2 t))) then (- 1, 0)
            else if fgreater x (fst (position (js ! j1 t))) then (0, 1)
            else (0, 0))
      else if crossover t < 0
      then (if fless x (fst (position (js ! j1 t))) then (0, - 1)
            else if fgreater x (fst (position (js ! j2 t))) then (1, 0)
            else (0, 0))
      else (0, 0))"

text \<open>
  The body of the \<open>else\<close> branch of \<open>splitTubule\<close>: the tubule at index \<open>i\<close> is
  split at offset \<open>split_len\<close>; \<open>choice\<close> is what \<open>random.choice([-1, 1])\<close> gave.
\<close>

definition split_at :: "substrate \<Rightarrow> fl \<Rightarrow> int \<Rightarrow> nat \<Rightarrow> tubule \<Rightarrow> substrate" where
  "split_at s split_len choice i t =
     (let js = junctions s;
          s2_vec = vscale (of_py_int choice) (fneg (snd (t_unit t)), fst (t_unit t));
          s1_pos = vadd (position (js ! j1 t)) (vscale split_len (t_unit t));
          s2_pos = vadd s1_pos (vscale (Fin (1 / 10)) s2_vec);
          (s_j1_crossover, s_j2_crossover) = crossover_correction js t (fst s1_pos);
          sp_crossover =
            (if fgreater (fst s2_pos) (width s) \<and> fless (fst s1_pos) (width s) then 1
             else if fless (fst s2_pos) (of_py_int 0) \<and> fgreater (fst s1_pos) (of_py_int 0)
             then - 1 else 0);
          (sa, s1) = addJunction s (fst s1_pos) (snd s1_pos) no_junction_kargs;
          (sb, s2) = addJunction sa (fst s2_pos) (snd s2_pos)
                       (no_junction_kargs\<lparr>jk_growing := Some True\<rparr>);
          sc = sb\<lparr>junctions :=
                  adjacent_remove (adjacent_remove (junctions sb) (j1 t) (j2 t)) (j2 t) (j1 t)\<rparr>;
          (sd, ta) = addTubule sc s1 (j1 t) (crossover_kargs s_j1_crossover);
          (se, tb) = addTubule sd s1 (j2 t) (crossover_kargs s_j2_crossover);
          (sf, tc) = addTubule se s1 s2 (crossover_kargs sp_crossover)
      in mark_to_remove sf i)"

text \<open>
  The scan: \<open>i\<close> is the index of the head of the tubules still to visit. When the list
  is used up the loop ends and nothing has been split.
\<close>

fun split_loop :: "substrate \<Rightarrow> fl \<Rightarrow> int \<Rightarrow> nat \<Rightarrow> tubule list \<Rightarrow> substrate" where
  "split_loop s split_len choice i [] = s"
| "split_loop s split_len choice i (t # ts) =
     (if fgreater split_len (t_norm t)
      then split_loop s (fsub split_len (t_norm t)) choice (Suc i) ts
      else split_at s split_len choice i t)"

text \<open>
  \<open>splitTubule\<close>, with the two random draws as arguments: \<open>split_len\<close> is the value
  of \<open>random.uniform(0, sys_len)\<close> and \<open>choice\<close> that of \<open>random.choice([-1, 1])\<close>.
\<close>

definition splitTubule :: "substrate \<Rightarrow> fl \<Rightarrow> int \<Rightarrow> substrate" where
  "splitTubule s split_len choice = split_loop s split_len choice 0 (tubules s)"

subsection \<open>Merging\<close>

text \<open>\<open>j.vector\<close> as the loop body of \<open>mergeTubule\<close> sets it for tubule \<open>t\<close>.\<close>

definition merge_vector :: "substrate \<Rightarrow> nat \<Rightarrow> tubule \<Rightarrow> vec" where
  "merge_vector s j t =
     (let js = junctions s;
          v = vsub (position (js ! j)) (position (js ! j1 t))
      in (if crossover t > 0
          then (if fless (fst (position (js ! j))) (fst (position (js ! j2 t)))
                then add_x v (width s) else v)
          else if crossover t < 0
          then (if fgreater (fst (position (js ! j))) (fst (position (js ! j2 t)))
                then (fsub (fst v) (width s), snd v) else v)
          else v))"

definition col_check :: "fl \<Rightarrow> fl" where
  "col_check j_norm =
     (if fless j_norm (Fin (1 / 10)) then of_py_int 0
      else if fless j_norm (Fin 1) then Fin (9 / 10)
      else Fin (999 / 1000))"

text \<open>The tip \<open>j\<close> is already attached to an end of \<open>t\<close>: the tubule is passed over.\<close>

definition attached :: "substrate \<Rightarrow> nat \<Rightarrow> tubule \<Rightarrow> bool" where
  "attached s j t \<longleftrightarrow>
     j \<in> set (adjacent (junctions s ! j1 t)) \<or> j \<in> set (adjacent (junctions s ! j2 t))"

text \<open>The two tests that decide a hit, on the vector just computed.\<close>

definition collides :: "vec \<Rightarrow> tubule \<Rightarrow> bool" where
  "collides v t =
     (let j_norm = linalg_norm v;
          j_unit = vdiv v j_norm
      in \<not> fgreater j_norm (t_norm t) \<and>
         fgreater (dot j_unit (t_unit t)) (col_check j_norm))"

text \<open>The edits of a hit on the tubule at index \<open>i\<close>.\<close>

definition merge_at :: "substrate \<Rightarrow> nat \<Rightarrow> nat \<Rightarrow> tubule \<Rightarrow> substrate" where
  "merge_at s j i t =
     (let js = junctions s;
          (j1_crossover, j2_crossover) = crossover_correction js t (fst (position (js ! j)));
          (sa, ta) = addTubule s j (j1 t) (crossover_kargs j1_crossover);
          (sb, tb) = addTubule sa j (j2 t) (crossover_kargs j2_crossover);
          jsc = adjacent_remove (adjacent_remove (junctions sb) j (j1 t)) j (j2 t);
          sc = sb\<lparr>junctions := jsc[j := (jsc ! j)\<lparr>growing := False\<rparr>]\<rparr>
      in mark_to_remove sc i)"

text \<open>\<open>j.vector = v\<close> on the junction with index \<open>j\<close>.\<close>

definition set_j_vector :: "substrate \<Rightarrow> nat \<Rightarrow> vec \<Rightarrow> substrate" where
  "set_j_vector s j v = s\<lparr>junctions := (junctions s)[j := (junctions s ! j)\<lparr>j_vector := v\<rparr>]\<rparr>"

text \<open>
  The scan over the tubules; \<open>i\<close> is the index of the head of those still to visit.
  The loop stops at the first hit (\<open>break\<close>).
\<close>

fun merge_loop :: "substrate \<Rightarrow> nat \<Rightarrow> nat \<Rightarrow> tubule list \<Rightarrow> substrate" where
  "merge_loop s j i [] = s"
| "merge_loop s j i (t # ts) =
     (if attached s j t then merge_loop s j (Suc i) ts
      else
        (let v = merge_vector s j t;
             sv = set_j_vector s j v
         in (if collides v t then merge_at sv j i t
             else merge_loop sv j (Suc i) ts)))"

definition mergeTubule :: "substrate \<Rightarrow> nat \<Rightarrow> substrate" where
  "mergeTubule s j =
     (if growing (junctions s ! j)
      then (if just_split (junctions s ! j)
            then s\<lparr>junctions := (junctions s)[j := (junctions s ! j)\<lparr>just_split := False\<rparr>]\<rparr>
            else merge_loop s j 0 (tubules s))
      else s)"

subsection \<open>Boundaries\<close>

definition pruneTubule :: "substrate \<Rightarrow> nat \<Rightarrow> substrate" where
  "pruneTubule s i = s"

definition pruneJunction :: "substrate \<Rightarrow> nat \<Rightarrow> substrate" where
  "pruneJunction s j = s"

definition pin :: "junction \<Rightarrow> vec \<Rightarrow> junction" where
  "pin j p = j\<lparr>position := p, anchor := True, growing := False\<rparr>"

definition boundSubstrate :: "substrate \<Rightarrow> junction \<Rightarrow> junction" where
  "boundSubstrate s j =
     (let ja = (if bound_x s
                then (if fgreater (fst (position j)) (width s)
                      then pin j (width s, snd (position j))
                      else if fless (fst (position j)) (of_py_int 0)
                      then pin j (of_py_int 0, snd (position j))
                      else j)
                else j)
      in (if fgreater (snd (position ja)) (height s)
          then pin ja (fst (position ja), height s)
          else if fless (snd (position ja)) (of_py_int 0)
          then pin ja (fst (position ja), of_py_int 0)
          else ja))"

text \<open>
  \<open>c -= 1\<close> followed by \<open>if c < -1: c = -1\<close>, and \<open>c += 1\<close> followed by
  \<open>if c > 1: c = 1\<close>.
\<close>

definition step_down :: "int \<Rightarrow> int" where
  "step_down c = (if c - 1 < - 1 then - 1 else c - 1)"

definition step_up :: "int \<Rightarrow> int" where
  "step_up c = (if c + 1 > 1 then 1 else c + 1)"

definition set_cross :: "junction list \<Rightarrow> nat \<Rightarrow> int \<Rightarrow> junction list" where
  "set_cross js j c = js[j := (js ! j)\<lparr>cross := c\<rparr>]"

definition wrapSubstrate :: "substrate \<Rightarrow> nat \<Rightarrow> substrate" where
  "wrapSubstrate s i =
     (if wrap_x s
      then
        (let t = tubules s ! i;
             js = junctions s;
             (ta, jsa) =
               (if fgreater (fst (position (js ! j1 t))) (width s)
                then (t\<lparr>crossover := step_down (crossover t)\<rparr>,
                      set_cross js (j1 t) (step_up (cross (js ! j1 t))))
                else if fless (fst (position (js ! j1 t))) (of_py_int 0)
                then (t\<lparr>crossover := step_up (crossover t)\<rparr>,
                      set_cross js (j1 t) (step_down (cross (js ! j1 t))))
                else (t, js));
             (tb, jsb) =
               (if fgreater (fst (position (jsa ! j2 ta))) (width s)
                then (ta\<lparr>crossover := step_up (crossover ta)\<rparr>,
                      set_cross jsa (j2 ta) (step_up (cross (jsa ! j2 ta))))
                else if fless (fst (position (jsa ! j2 ta))) (of_py_int 0)
                then (ta\<lparr>crossover := step_down (crossover ta)\<rparr>,
                      set_cross jsa (j2 ta) (step_down (cross (jsa ! j2 ta))))
                else (ta, jsa))
         in s\<lparr>junctions := jsb, tubules := (tubules s)[i := tb]\<rparr>)
      else s)"

subsection \<open>Seeding and the tick\<close>

text \<open>\<open>sorted([a, b])\<close>: the two are swapped when \<open>b < a\<close>.\<close>

definition sorted2 :: "fl \<Rightarrow> fl \<Rightarrow> fl \<times> fl" where
  "sorted2 a b = (if fless b a then (b, a) else (a, b))"

text \<open>\<open>initSubstrate\<close>, with its four \<open>random.uniform\<close> draws as arguments.\<close>

definition initSubstrate :: "substrate \<Rightarrow> fl \<Rightarrow> fl \<Rightarrow> fl \<Rightarrow> fl \<Rightarrow> substrate" where
  "initSubstrate s0 b1 b2 t1 t2 =
     (let x_bot = sorted2 b1 b2;
          x_top = sorted2 t1 t2;
          anchored = no_junction_kargs\<lparr>jk_anchor := Some True\<rparr>;
          (sa, jbot_1) = addJunction s0 (fst x_bot) (of_py_int 0) anchored;
          (sb, jbot_2) = addJunction sa (snd x_bot) (of_py_int 0) anchored;
          (sc, jtop_1) = addJunction sb (fst x_top) (height sb) anchored;
          (sd, jtop_2) = addJunction sc (snd x_top) (height sc) anchored;
          (se, ta) = addTubule sd jbot_1 jtop_1 no_tubule_kargs;
          (sf, tb) = addTubule se jbot_2 jtop_2 no_tubule_kargs
      in sf)"

definition apply_jfun :: "jfun \<Rightarrow> nat \<Rightarrow> substrate \<Rightarrow> substrate" where
  "apply_jfun f j s =
     (case f of
        F_moveJunction \<Rightarrow> s\<lparr>junctions := (junctions s)[j := moveJunction (junctions s ! j)]\<rparr>
      | F_boundSubstrate \<Rightarrow>
          s\<lparr>junctions := (junctions s)[j := boundSubstrate s (junctions s ! j)]\<rparr>
      | F_mergeTubule \<Rightarrow> mergeTubule s j)"

definition apply_tfun :: "tfun \<Rightarrow> nat \<Rightarrow> substrate \<Rightarrow> substrate" where
  "apply_tfun f i s =
     (case f of
        F_updateTubule \<Rightarrow> s\<lparr>tubules := (tubules s)[i := updateTubule (junctions s) (tubules s ! i)]\<rparr>
      | F_contractTubule \<Rightarrow> s\<lparr>junctions := contractTubule (tubules s ! i) (junctions s)\<rparr>
      | F_growTubule \<Rightarrow> s\<lparr>junctions := growTubule (tubules s ! i) (junctions s)\<rparr>
      | F_pruneTubule \<Rightarrow> pruneTubule s i
      | F_wrapSubstrate \<Rightarrow> wrapSubstrate s i)"

text \<open>\<open>for x in xs: f(x)\<close> over the indices \<open>i, \<dots>, i + n - 1\<close>.\<close>

fun for_each :: "nat \<Rightarrow> nat \<Rightarrow> (nat \<Rightarrow> 's \<Rightarrow> 's) \<Rightarrow> 's \<Rightarrow> 's" where
  "for_each i 0 f s = s"
| "for_each i (Suc n) f s = for_each (Suc i) n f (f i s)"

text \<open>
  No junction function adds a junction and no tubule function adds a tubule, so each
  inner loop visits the entities that exist when it starts.
\<close>

definition updateSubstrate :: "substrate \<Rightarrow> substrate" where
  "updateSubstrate s =
     (let sa = fold (\<lambda>f s'. for_each 0 (length (junctions s')) (apply_jfun f) s')
                 (j_functions s) s
      in fold (\<lambda>f s'. for_each 0 (length (tubules s')) (apply_tfun f) s')
           (t_functions sa) sa)"

text \<open>\<open>n\<close> ticks.\<close>

fun ticks :: "nat \<Rightarrow> substrate \<Rightarrow> substrate" where
  "ticks 0 s = s"
| "ticks (Suc n) s = ticks n (updateSubstrate s)"

section \<open>Predicates and reference states\<close>

text \<open>
  Tubule \<open>t\<close> is a hit for the tip \<open>j\<close>: the loop body of \<open>mergeTubule\<close> reaches
  its merging branch.
\<close>

definition hits :: "substrate \<Rightarrow> nat \<Rightarrow> tubule \<Rightarrow> bool" where
  "hits s j t \<longleftrightarrow> \<not> attached s j t \<and> collides (merge_vector s j t) t"

text \<open>The junction list of \<open>mergeTubule\<close> after the two \<open>addTubule\<close> calls and the two removals.\<close>

definition merged_junctions :: "junction list \<Rightarrow> nat \<Rightarrow> nat \<Rightarrow> nat \<Rightarrow> junction list" where
  "merged_junctions js j a b =
     adjacent_remove (adjacent_remove
       (adjacent_append (adjacent_append (adjacent_append (adjacent_append js j a) a j) j b) b j)
       j a) j b"

text \<open>\<open>A in B.adjacent\<close> exactly when \<open>B in A.adjacent\<close>, for all junctions.\<close>

definition adjacency_symmetric :: "substrate \<Rightarrow> bool" where
  "adjacency_symmetric s \<longleftrightarrow>
     list_all (\<lambda>a. list_all (\<lambda>b. (b \<in> set (adjacent (junctions s ! a))) =
                                  (a \<in> set (adjacent (junctions s ! b))))
                 [0..<length (junctions s)])
       [0..<length (junctions s)]"

text \<open>
  The objects that the factories of a \<open>Substrate(400, 400)\<close> with default settings
  produce, written out: a junction at \<open>(x, y)\<close> with the given neighbours, and a
  tubule whose cached vector is \<open>(dx, dy)\<close> and whose cached norm is \<open>n\<close>.
\<close>

definition made_junction :: "real \<Rightarrow> real \<Rightarrow> nat list \<Rightarrow> junction" where
  "made_junction x y adj =
     \<lparr>position = (Fin x, Fin y), velocity = (Fin 0, Fin 0), j_vector = (Fin 0, Fin 0),
      j_flowing = False, growing = False, anchor = False,
      j_flowrate = (Fin 0, Fin (- (1 / 10000000))), j_dragrate = Fin (99 / 100),
      cross = 0, j_width = Fin 400, adjacent = adj, just_split = True\<rparr>"

definition made_tubule :: "nat \<Rightarrow> nat \<Rightarrow> real \<Rightarrow> real \<Rightarrow> real \<Rightarrow> tubule" where
  "made_tubule a b dx dy n =
     \<lparr>j1 = a, j2 = b, t_width = Fin 400, crossover = 0, t_vector = (Fin dx, Fin dy),
      t_norm = Fin n, t_unit = (Fin (dx / n), Fin (dy / n)),
      t_hookes = Fin (5 / 100000), t_growth = Fin (1 / 2), t_contracting = True,
      to_remove = False\<rparr>"

definition made_substrate :: "junction list \<Rightarrow> tubule list \<Rightarrow> substrate" where
  "made_substrate js ts =
     \<lparr>width = Fin 400, height = Fin 400, bound_x = False, wrap_x = True,
      flowing = False, flowrate = (Fin 0, Fin (- (1 / 10000000))),
      dragrate = Fin (99 / 100), hookes = Fin (5 / 100000),
      growth = Fin (1 / 2), contracting = True,
      junctions = js, tubules = ts, j_functions = [], t_functions = []\<rparr>"

text \<open>
  A growing tip at \<open>(0, 1)\<close>, joined by the first tubule to its parent junction at
  \<open>(2, 1)\<close>, and a second tubule from \<open>(0, 0)\<close> to \<open>(0, 2)\<close>, on which the tip
  lies. The first \<open>mergeTubule\<close> call on the tip only clears \<open>just_split\<close>.
\<close>

definition tip_example :: substrate where
  "tip_example =
     (let s0 = Substrate (Fin 400) (Fin 400) no_substrate_kargs;
          (s1, a) = addJunction s0 (Fin 0) (Fin 0) no_junction_kargs;
          (s2, b) = addJunction s1 (Fin 0) (Fin 2) no_junction_kargs;
          (s3, p) = addJunction s2 (Fin 2) (Fin 1) no_junction_kargs;
          (s4, j) = addJunction s3 (Fin 0) (Fin 1)
                      (no_junction_kargs\<lparr>jk_growing := Some True\<rparr>);
          (s5, u) = addTubule s4 p j no_tubule_kargs;
          (s6, t) = addTubule s5 a b no_tubule_kargs
      in mergeTubule s6 j)"

text \<open>Two junctions at the same point \<open>(1, 1)\<close> and a tubule between them.\<close>

definition zero_example :: substrate where
  "zero_example =
     (let s0 = Substrate (Fin 400) (Fin 400) no_substrate_kargs;
          (s1, a) = addJunction s0 (Fin 1) (Fin 1) no_junction_kargs;
          (s2, b) = addJunction s1 (Fin 1) (Fin 1) no_junction_kargs;
          (s3, t) = addTubule s2 a b no_tubule_kargs
      in s3)"

text \<open>A tubule whose first end, at \<open>(402, 50)\<close>, is beyond the right edge.\<close>

definition wrap_example :: substrate where
  "wrap_example =
     (let s0 = Substrate (Fin 400) (Fin 400) no_substrate_kargs;
          (s1, a) = addJunction s0 (Fin 402) (Fin 50) no_junction_kargs;
          (s2, b) = addJunction s1 (Fin 10) (Fin 50) no_junction_kargs;
          (s3, t) = addTubule s2 a b no_tubule_kargs
      in s3)"

text \<open>
  The contraction scenario: a 400 by 400 substrate with the pipeline
  \<open>moveJunction\<close>, \<open>updateTubule\<close>, \<open>contractTubule\<close>, seeded by
  \<open>initSubstrate\<close> with the draws 120 and 310 for the bottom and 95 and 340 for
  the top.
\<close>

definition scenario :: substrate where
  "scenario =
     initSubstrate
       (addFunctions
          (Substrate (Fin 400) (Fin 400)
             (no_substrate_kargs
                \<lparr>sk_contracting := Some True, sk_hookes := Some (Fin (5 / 100000))\<rparr>))
          [''moveJunction'', ''updateTubule'', ''contractTubule''])
       (Fin 120) (Fin 310) (Fin 95) (Fin 340)"

section \<open>Facts about the number model\<close>


lemma fgreater_Fin: "fgreater (Fin x) (Fin y) = (y < x)"
  by (simp add: fgreater_def)







section \<open>The reference states, evaluated\<close>

lemmas build_defs = Substrate_def addJunction_def addTubule_def Tubule_def
  Junction_def kget_def no_substrate_kargs_def no_junction_kargs_def no_tubule_kargs_def
  adjacent_append_def zero_vec_def of_py_int_def vsub_def vadd_def add_x_def vdiv_def
  linalg_norm_def Let_def fsub_def

lemmas made_defs = made_substrate_def made_junction_def made_tubule_def

lemma tip_example_explicit:
  "tip_example =
     made_substrate
       [made_junction 0 0 [1], made_junction 0 2 [0], made_junction 2 1 [3],
        (made_junction 0 1 [2])\<lparr>growing := True, just_split := False\<rparr>]
       [made_tubule 2 3 (- 2) 0 2, made_tubule 0 1 0 2 2]"
  by (simp add: tip_example_def build_defs mergeTubule_def made_defs
      cong: prod.case_cong_weak let_weak_cong)

lemma tip_example_hit:
  "\<not> hits tip_example 3 (tubules tip_example ! 0)"
  "hits tip_example 3 (tubules tip_example ! 1)"
  by (simp_all add: tip_example_explicit made_defs hits_def attached_def collides_def
      merge_vector_def col_check_def dot_def fgreater_def vsub_def vdiv_def linalg_norm_def
      fsub_def Let_def of_py_int_def cong: prod.case_cong_weak let_weak_cong)

lemma tip_example_merged:
  "mergeTubule tip_example 3 =
     made_substrate
       [made_junction 0 0 [1, 3], made_junction 0 2 [0, 3], made_junction 2 1 [3],
        (made_junction 0 1 [2])
          \<lparr>growing := False, just_split := False, j_vector := (Fin 0, Fin 1)\<rparr>]
       [made_tubule 2 3 (- 2) 0 2, (made_tubule 0 1 0 2 2)\<lparr>to_remove := True\<rparr>,
        made_tubule 3 0 0 (- 1) 1, made_tubule 3 1 0 1 1]"
  by (simp add: tip_example_explicit made_defs mergeTubule_def attached_def collides_def
      merge_vector_def col_check_def dot_def fgreater_def set_j_vector_def merge_at_def
      crossover_correction_def crossover_kargs_def adjacent_remove_def mark_to_remove_def
      build_defs cong: prod.case_cong_weak let_weak_cong)

lemma zero_example_explicit:
  "zero_example =
     made_substrate [made_junction 1 1 [1], made_junction 1 1 [0]]
       [(made_tubule 0 1 0 0 0)\<lparr>t_unit := (NaN, NaN)\<rparr>]"
  by (simp add: zero_example_def build_defs made_defs cong: prod.case_cong_weak let_weak_cong)

lemma scenario_explicit:
  "scenario =
     (made_substrate
        [(made_junction 120 0 [2])\<lparr>anchor := True\<rparr>, (made_junction 310 0 [3])\<lparr>anchor := True\<rparr>,
         (made_junction 95 400 [0])\<lparr>anchor := True\<rparr>, (made_junction 340 400 [1])\<lparr>anchor := True\<rparr>]
        [made_tubule 0 2 (- 25) 400 (sqrt 160625), made_tubule 1 3 30 400 (sqrt 160900)])
     \<lparr>j_functions := [F_moveJunction], t_functions := [F_updateTubule, F_contractTubule]\<rparr>"
  by (simp add: scenario_def initSubstrate_def function_dict_def sorted2_def build_defs made_defs
      cong: prod.case_cong_weak let_weak_cong)

text \<open>One tick leaves the scenario as it is: every junction is anchored.\<close>

lemma updateSubstrate_scenario: "updateSubstrate scenario = scenario"
  by (simp add: scenario_explicit made_defs updateSubstrate_def apply_jfun_def apply_tfun_def
      moveJunction_def updateTubule_def contractTubule_def vsub_def vadd_def add_x_def vdiv_def
      linalg_norm_def fsub_def of_py_int_def Let_def cong: prod.case_cong_weak let_weak_cong)

lemma ticks_fixed: "updateSubstrate s = s \<Longrightarrow> ticks n s = s"
  by (induction n) simp_all

section \<open>Scanning lemmas\<close>

subsection \<open>The scan of \<open>splitTubule\<close>\<close>



lemma foldl_fadd_Fin: "foldl fadd (Fin a) (map Fin ns) = Fin (a + sum_list ns)"
  by (induction ns arbitrary: a) (simp_all add: algebra_simps)

lemma sys_len_Fin: "map t_norm (tubules s) = map Fin ns \<Longrightarrow> sys_len s = Fin (sum_list ns)"
  by (simp add: sys_len_def of_py_int_def foldl_fadd_Fin)

subsection \<open>Edits of the adjacency lists\<close>

lemma length_adjacent_edit [simp]:
  "length (adjacent_append js j k) = length js"
  "length (adjacent_remove js j k) = length js"
  by (simp_all add: adjacent_append_def adjacent_remove_def)

lemma nth_adjacent_append:
  "j < length js \<Longrightarrow>
   adjacent (adjacent_append js j k ! m) =
     (if m = j then adjacent (js ! j) @ [k] else adjacent (js ! m))"
  by (simp add: adjacent_append_def nth_list_update)

lemma nth_adjacent_remove:
  "j < length js \<Longrightarrow>
   adjacent (adjacent_remove js j k ! m) =
     (if m = j then remove1 k (adjacent (js ! j)) else adjacent (js ! m))"
  by (simp add: adjacent_remove_def nth_list_update)

text \<open>What the factories and a split add, whatever the geometry.\<close>

lemma addJunction_sizes [simp]:
  "length (junctions (fst (addJunction s x y k))) = Suc (length (junctions s))"
  "tubules (fst (addJunction s x y k)) = tubules s"
  by (simp_all add: addJunction_def Let_def)

lemma addTubule_sizes [simp]:
  "length (junctions (fst (addTubule s a b k))) = length (junctions s)"
  "length (tubules (fst (addTubule s a b k))) = Suc (length (tubules s))"
  "i < length (tubules s) \<Longrightarrow> tubules (fst (addTubule s a b k)) ! i = tubules s ! i"
  by (simp_all add: addTubule_def Let_def nth_append)

lemma mark_to_remove_sizes [simp]:
  "junctions (mark_to_remove s i) = junctions s"
  "length (tubules (mark_to_remove s i)) = length (tubules s)"
  "i < length (tubules s) \<Longrightarrow> to_remove (tubules (mark_to_remove s i) ! i)"
  by (simp_all add: mark_to_remove_def)

lemma split_at_sizes:
  "length (junctions (split_at s r c i t)) = length (junctions s) + 2"
  "length (tubules (split_at s r c i t)) = length (tubules s) + 3"
  "i < length (tubules s) \<Longrightarrow> to_remove (tubules (split_at s r c i t) ! i)"
  unfolding split_at_def Let_def case_prod_beta
  by simp_all

subsection \<open>The scan of \<open>mergeTubule\<close>\<close>

lemma nth_set_vector:
  "adjacent ((js[j := (js ! j)\<lparr>j_vector := v\<rparr>]) ! k) = adjacent (js ! k) \<and>
   position ((js[j := (js ! j)\<lparr>j_vector := v\<rparr>]) ! k) = position (js ! k)"
  by (cases "j < length js"; cases "k = j") (simp_all add: list_update_beyond)

lemma set_j_vector_fields [simp]:
  "tubules (set_j_vector s j v) = tubules s"
  "width (set_j_vector s j v) = width s"
  "length (junctions (set_j_vector s j v)) = length (junctions s)"
  "adjacent (junctions (set_j_vector s j v) ! k) = adjacent (junctions s ! k)"
  "position (junctions (set_j_vector s j v) ! k) = position (junctions s ! k)"
  by (simp_all add: set_j_vector_def nth_set_vector)

lemma set_j_vector_twice [simp]:
  "set_j_vector (set_j_vector s j v) j w = set_j_vector s j w"
  by (cases "j < length (junctions s)") (simp_all add: set_j_vector_def list_update_beyond)

lemma attached_set_j_vector [simp]: "attached (set_j_vector s j v) k t = attached s k t"
  by (simp add: attached_def)

lemma merge_vector_set_j_vector [simp]:
  "merge_vector (set_j_vector s j v) k t = merge_vector s k t"
  by (simp add: merge_vector_def Let_def)

lemma hits_set_j_vector [simp]: "hits (set_j_vector s j v) k t = hits s k t"
  by (simp add: hits_def)

lemma merge_loop_no_hit_step:
  "\<not> hits s j t \<Longrightarrow>
   merge_loop s j i (t # ts) = merge_loop s j (Suc i) ts \<or>
   merge_loop s j i (t # ts) = merge_loop (set_j_vector s j (merge_vector s j t)) j (Suc i) ts"
  by (auto simp: hits_def Let_def)

text \<open>
  The loop runs up to the first hit and merges there; of the vectors it has stored in
  \<open>j.vector\<close> on the way only the last one is left.
\<close>

lemma merge_loop_first_hit:
  assumes "k < length ts" "hits s j (ts ! k)" "\<forall>m<k. \<not> hits s j (ts ! m)"
  shows "merge_loop s j i ts =
           merge_at (set_j_vector s j (merge_vector s j (ts ! k))) j (i + k) (ts ! k)"
  using assms
proof (induction ts arbitrary: s i k)
  case Nil
  then show ?case by simp
next
  case (Cons t ts)
  show ?case
  proof (cases k)
    case 0
    with Cons.prems(2) show ?thesis
      by (simp add: hits_def Let_def)
  next
    case (Suc k')
    with Cons.prems have k': "k' < length ts" and hit: "hits s j (ts ! k')"
      and before: "\<forall>m<k'. \<not> hits s j (ts ! m)" and head: "\<not> hits s j t"
      by auto
    from merge_loop_no_hit_step [OF head, of i ts] show ?thesis
    proof
      assume "merge_loop s j i (t # ts) = merge_loop s j (Suc i) ts"
      with Cons.IH [OF k' hit before, of "Suc i"] show ?thesis
        by (simp add: Suc)
    next
      let ?sv = "set_j_vector s j (merge_vector s j t)"
      assume "merge_loop s j i (t # ts) = merge_loop ?sv j (Suc i) ts"
      moreover have "merge_loop ?sv j (Suc i) ts =
          merge_at (set_j_vector ?sv j (merge_vector ?sv j (ts ! k'))) j (Suc i + k') (ts ! k')"
        using k' hit before by (intro Cons.IH) simp_all
      ultimately show ?thesis
        by (simp add: Suc)
    qed
  qed
qed

subsection \<open>The edits of a merge\<close>

lemma merge_at_junctions:
  "junctions (merge_at s j i t) =
     (merged_junctions (junctions s) j (j1 t) (j2 t))
       [j := (merged_junctions (junctions s) j (j1 t) (j2 t) ! j)\<lparr>growing := False\<rparr>]"
  by (simp add: merge_at_def Let_def addTubule_def mark_to_remove_def merged_junctions_def
      split: prod.splits)

lemma merge_at_tubules:
  assumes "i < length (tubules s)"
  shows "length (tubules (merge_at s j i t)) = length (tubules s) + 2"
    and "to_remove (tubules (merge_at s j i t) ! i)"
    and "j1 (tubules (merge_at s j i t) ! length (tubules s)) = j"
    and "j2 (tubules (merge_at s j i t) ! length (tubules s)) = j1 t"
    and "j1 (tubules (merge_at s j i t) ! Suc (length (tubules s))) = j"
    and "j2 (tubules (merge_at s j i t) ! Suc (length (tubules s))) = j2 t"
  using assms
  by (simp_all add: merge_at_def Let_def addTubule_def mark_to_remove_def Tubule_def
      nth_append nth_list_update split: prod.splits)

text \<open>
  The entries that \<open>addTubule\<close> appends to the tip's own list are the ones the two
  \<open>remove\<close> calls find (so \<open>remove\<close> never raises), or earlier equal ones.
\<close>

lemma merged_adjacent:
  assumes "j < length js" "a < length js" "b < length js" "j \<noteq> a" "j \<noteq> b"
  shows "adjacent (merged_junctions js j a b ! j) =
           remove1 b (remove1 a (adjacent (js ! j) @ [a, b]))"
    and "j \<in> set (adjacent (merged_junctions js j a b ! a))"
    and "j \<in> set (adjacent (merged_junctions js j a b ! b))"
  using assms by (auto simp: merged_junctions_def nth_adjacent_append nth_adjacent_remove)

subsection \<open>Symmetry of the adjacency lists\<close>

lemma adjacency_symmetric_iff:
  "adjacency_symmetric s \<longleftrightarrow>
     (\<forall>a<length (junctions s). \<forall>b<length (junctions s).
        b \<in> set (adjacent (junctions s ! a)) \<longleftrightarrow> a \<in> set (adjacent (junctions s ! b)))"
  by (auto simp: adjacency_symmetric_def list_all_iff)

text \<open>\<open>addTubule\<close> on its own keeps the lists symmetric.\<close>

lemma addTubule_symmetric:
  assumes "adjacency_symmetric s" "a < length (junctions s)" "b < length (junctions s)"
  shows "adjacency_symmetric (fst (addTubule s a b k))"
  using assms
  by (auto simp: adjacency_symmetric_iff addTubule_def Let_def nth_adjacent_append)

section \<open>The claims\<close>

subsection \<open>Merging\<close>

text \<open>
  C1, as the code has it. Let \<open>j\<close> be a growing junction with \<open>just_split\<close> cleared,
  and let the tubule at index \<open>k\<close>, to which \<open>j\<close> is not attached, be the first hit
  of the scan. When \<open>mergeTubule(j)\<close> returns, \<open>j.growing\<close> is false, that tubule is
  marked for removal, two tubules from \<open>j\<close> to its former ends \<open>t.j1\<close> and \<open>t.j2\<close>
  have been appended, both ends list \<open>j\<close> as adjacent, and every junction that was
  in \<open>j.adjacent\<close> before the call (the tip's parent, for one) is still in it: the
  list is not limited to the two ends of the tubule.
\<close>

theorem mergeTubule_hit:
  assumes j: "j < length (junctions s)"
    and tip: "growing (junctions s ! j)" "\<not> just_split (junctions s ! j)"
    and k: "k < length (tubules s)"
    and hit: "hits s j (tubules s ! k)"
    and first: "\<forall>m<k. \<not> hits s j (tubules s ! m)"
    and ends: "j1 (tubules s ! k) < length (junctions s)"
              "j2 (tubules s ! k) < length (junctions s)"
    and apart: "j \<noteq> j1 (tubules s ! k)" "j \<noteq> j2 (tubules s ! k)"
  shows "\<not> growing (junctions (mergeTubule s j) ! j) \<and>
         to_remove (tubules (mergeTubule s j) ! k) \<and>
         length (tubules (mergeTubule s j)) = length (tubules s) + 2 \<and>
         j1 (tubules (mergeTubule s j) ! length (tubules s)) = j \<and>
         j2 (tubules (mergeTubule s j) ! length (tubules s)) = j1 (tubules s ! k) \<and>
         j1 (tubules (mergeTubule s j) ! Suc (length (tubules s))) = j \<and>
         j2 (tubules (mergeTubule s j) ! Suc (length (tubules s))) = j2 (tubules s ! k) \<and>
         j \<in> set (adjacent (junctions (mergeTubule s j) ! j1 (tubules s ! k))) \<and>
         j \<in> set (adjacent (junctions (mergeTubule s j) ! j2 (tubules s ! k))) \<and>
         set (adjacent (junctions s ! j)) \<subseteq> set (adjacent (junctions (mergeTubule s j) ! j))"
proof -
  let ?t = "tubules s ! k"
  let ?sv = "set_j_vector s j (merge_vector s j ?t)"
  let ?m = "merged_junctions (junctions ?sv) j (j1 ?t) (j2 ?t)"
  have run: "mergeTubule s j = merge_at ?sv j k ?t"
    using tip merge_loop_first_hit [OF k hit first, of 0] by (simp add: mergeTubule_def)
  have js: "junctions (mergeTubule s j) = ?m[j := (?m ! j)\<lparr>growing := False\<rparr>]"
    by (simp add: run merge_at_junctions)
  have len: "j < length ?m" "j1 ?t < length ?m" "j2 ?t < length ?m"
    using j ends by (simp_all add: merged_junctions_def)
  have adj: "adjacent (junctions (mergeTubule s j) ! m) = adjacent (?m ! m)" for m
    using len by (simp add: js nth_list_update)
  have lv: "j < length (junctions ?sv)" "j1 ?t < length (junctions ?sv)"
    "j2 ?t < length (junctions ?sv)"
    using j ends by simp_all
  have "adjacent (?m ! j) =
      remove1 (j2 ?t) (remove1 (j1 ?t) (adjacent (junctions s ! j) @ [j1 ?t, j2 ?t]))"
    using merged_adjacent(1) [OF lv apart] by simp
  then have "mset (adjacent (?m ! j)) = mset (adjacent (junctions s ! j))"
    by simp
  then have keep:
    "set (adjacent (junctions s ! j)) \<subseteq> set (adjacent (junctions (mergeTubule s j) ! j))"
    by (metis adj mset_eq_setD subset_refl)
  have g: "\<not> growing (junctions (mergeTubule s j) ! j)"
    using len by (simp add: js)
  have k': "k < length (tubules ?sv)" using k by simp
  show ?thesis
    using g keep merge_at_tubules [OF k', of j ?t] merged_adjacent(2,3) [OF lv apart]
    by (simp add: run [symmetric] adj)
qed

text \<open>
  The theorem at the tip of \<open>tip_example\<close>, junction 3. Tubule 0 joins it to its
  parent and is passed over; tubule 1, on which it lies, is the first hit. After the merge
  junctions 0 and 1 list the tip, which still lists its parent, junction 2.
\<close>

theorem mergeTubule_hit_witness:
  "growing (junctions tip_example ! 3) \<and>
   \<not> hits tip_example 3 (tubules tip_example ! 0) \<and>
   hits tip_example 3 (tubules tip_example ! 1) \<and>
   \<not> growing (junctions (mergeTubule tip_example 3) ! 3) \<and>
   to_remove (tubules (mergeTubule tip_example 3) ! 1) \<and>
   length (tubules (mergeTubule tip_example 3)) = 4 \<and>
   j1 (tubules (mergeTubule tip_example 3) ! 2) = 3 \<and>
   j2 (tubules (mergeTubule tip_example 3) ! 2) = 0 \<and>
   j1 (tubules (mergeTubule tip_example 3) ! 3) = 3 \<and>
   j2 (tubules (mergeTubule tip_example 3) ! 3) = 1 \<and>
   3 \<in> set (adjacent (junctions (mergeTubule tip_example 3) ! 0)) \<and>
   3 \<in> set (adjacent (junctions (mergeTubule tip_example 3) ! 1)) \<and>
   2 \<in> set (adjacent (junctions (mergeTubule tip_example 3) ! 3))"
proof -
  have j: "3 < length (junctions tip_example)"
    and tip: "growing (junctions tip_example ! 3)" "\<not> just_split (junctions tip_example ! 3)"
    and k: "1 < length (tubules tip_example)"
    and e: "j1 (tubules tip_example ! 1) = 0" "j2 (tubules tip_example ! 1) = 1"
      "length (tubules tip_example) = 2" "adjacent (junctions tip_example ! 3) = [2]"
    by (simp_all add: tip_example_explicit made_defs)
  have first: "\<forall>m<1. \<not> hits tip_example 3 (tubules tip_example ! m)"
    using tip_example_hit(1) by simp
  have ends: "j1 (tubules tip_example ! 1) < length (junctions tip_example)"
    "j2 (tubules tip_example ! 1) < length (junctions tip_example)"
    and apart: "3 \<noteq> j1 (tubules tip_example ! 1)" "3 \<noteq> j2 (tubules tip_example ! 1)"
    by (simp_all add: tip_example_explicit made_defs)
  from mergeTubule_hit [OF j tip k tip_example_hit(2) first ends apart] tip(1) tip_example_hit
  show ?thesis
    unfolding e by simp
qed

text \<open>
  C1 as stated fails there: the tip's adjacency list after the merge is \<open>[2]\<close>, its
  parent, and holds neither end of the merged tubule.
\<close>

theorem mergeTubule_adjacent_counterexample:
  "growing (junctions tip_example ! 3) \<and>
   \<not> just_split (junctions tip_example ! 3) \<and>
   \<not> hits tip_example 3 (tubules tip_example ! 0) \<and>
   hits tip_example 3 (tubules tip_example ! 1) \<and>
   j1 (tubules tip_example ! 1) = 0 \<and> j2 (tubules tip_example ! 1) = 1 \<and>
   to_remove (tubules (mergeTubule tip_example 3) ! 1) \<and>
   adjacent (junctions (mergeTubule tip_example 3) ! 3) = [2] \<and>
   set (adjacent (junctions (mergeTubule tip_example 3) ! 3)) \<noteq> {0, 1}"
proof -
  have "adjacent (junctions (mergeTubule tip_example 3) ! 3) = [2]"
    "to_remove (tubules (mergeTubule tip_example 3) ! 1)"
    by (simp_all add: tip_example_merged made_defs)
  moreover have "growing (junctions tip_example ! 3)"
    "\<not> just_split (junctions tip_example ! 3)"
    "j1 (tubules tip_example ! 1) = 0" "j2 (tubules tip_example ! 1) = 1"
    by (simp_all add: tip_example_explicit made_defs)
  ultimately show ?thesis
    using tip_example_hit by simp
qed

text \<open>
  C2 at the same input. The adjacency lists of \<open>tip_example\<close> are symmetric; after
  \<open>mergeTubule\<close> on the tip they are not: junction 0, an end of the merged tubule,
  lists the tip, junction 3, and the tip does not list junction 0.
\<close>

theorem mergeTubule_breaks_symmetry:
  "adjacency_symmetric tip_example \<and>
   \<not> adjacency_symmetric (mergeTubule tip_example 3) \<and>
   3 \<in> set (adjacent (junctions (mergeTubule tip_example 3) ! 0)) \<and>
   0 \<notin> set (adjacent (junctions (mergeTubule tip_example 3) ! 3))"
proof -
  have "adjacency_symmetric tip_example"
    by (simp add: tip_example_explicit made_defs adjacency_symmetric_def upt_conv_Cons)
  moreover have "\<not> adjacency_symmetric (mergeTubule tip_example 3)"
    by (simp add: tip_example_merged made_defs adjacency_symmetric_def upt_conv_Cons)
  moreover have "3 \<in> set (adjacent (junctions (mergeTubule tip_example 3) ! 0))"
    "0 \<notin> set (adjacent (junctions (mergeTubule tip_example 3) ! 3))"
    by (simp_all add: tip_example_merged made_defs)
  ultimately show ?thesis by simp
qed

subsection \<open>Contraction between anchors\<close>

lemma ticks_scenario: "ticks n scenario = scenario"
  by (rule ticks_fixed) (rule updateSubstrate_scenario)

text \<open>
  C3, as the code has it. In the scenario all four junctions are anchored, so
  \<open>moveJunction\<close> and \<open>contractTubule\<close> change nothing: after 1000 ticks the state
  is the seeded one, and each tubule's norm equals its initial value.
\<close>

theorem anchored_scenario_norms_unchanged:
  "ticks 1000 scenario = scenario \<and>
   map t_norm (tubules (ticks 1000 scenario)) = map t_norm (tubules scenario) \<and>
   map t_norm (tubules scenario) = [Fin (sqrt 160625), Fin (sqrt 160900)]"
  by (simp add: ticks_scenario) (simp add: scenario_explicit made_defs)

text \<open>C3 as stated fails: neither norm is smaller after the 1000 ticks.\<close>

theorem anchored_scenario_counterexample:
  "\<not> fless (t_norm (tubules (ticks 1000 scenario) ! 0)) (t_norm (tubules scenario ! 0)) \<and>
   \<not> fless (t_norm (tubules (ticks 1000 scenario) ! 1)) (t_norm (tubules scenario ! 1))"
  by (simp add: ticks_scenario) (simp add: scenario_explicit made_defs)

subsection \<open>The cached vector\<close>



subsection \<open>Choosing the tubule to split\<close>




subsection \<open>Zero length\<close>






text \<open>
  C7, as the code has it. Let every tubule have norm zero, so that the system length is
  zero and the draw \<open>random.uniform(0, 0)\<close> is zero. With no tubule at all,
  \<open>splitTubule\<close> is a no-op. With a tubule present it is not: zero does not exceed
  the norm of the first tubule, so that tubule is split, two junctions and three tubules
  are created and the first tubule is marked for removal. Nothing is raised.
\<close>

theorem splitTubule_zero_length:
  assumes "\<forall>u\<in>set (tubules s). t_norm u = Fin 0"
  shows "sys_len s = Fin 0 \<and>
    (tubules s = [] \<longrightarrow> splitTubule s (Fin 0) c = s) \<and>
    (tubules s \<noteq> [] \<longrightarrow>
       splitTubule s (Fin 0) c = split_at s (Fin 0) c 0 (tubules s ! 0) \<and>
       length (junctions (splitTubule s (Fin 0) c)) = length (junctions s) + 2 \<and>
       length (tubules (splitTubule s (Fin 0) c)) = length (tubules s) + 3 \<and>
       to_remove (tubules (splitTubule s (Fin 0) c) ! 0))"
proof (intro conjI impI)
  from assms have "map t_norm (tubules s) = map Fin (replicate (length (tubules s)) 0)"
    by (simp add: map_replicate_const [symmetric] cong: map_cong)
  then have "sys_len s = Fin (sum_list (replicate (length (tubules s)) 0))"
    by (rule sys_len_Fin)
  then show "sys_len s = Fin 0"
    by (simp add: sum_list_replicate)
next
  assume "tubules s = []"
  then show "splitTubule s (Fin 0) c = s"
    by (simp add: splitTubule_def)
next
  assume ne: "tubules s \<noteq> []"
  then obtain t ts where ts: "tubules s = t # ts"
    by (cases "tubules s") auto
  with assms have "t_norm t = Fin 0" by simp
  then have split: "splitTubule s (Fin 0) c = split_at s (Fin 0) c 0 t"
    by (simp add: splitTubule_def ts fgreater_def)
  then show "splitTubule s (Fin 0) c = split_at s (Fin 0) c 0 (tubules s ! 0)"
    by (simp add: ts)
  show "length (junctions (splitTubule s (Fin 0) c)) = length (junctions s) + 2"
    "length (tubules (splitTubule s (Fin 0) c)) = length (tubules s) + 3"
    by (simp_all add: split split_at_sizes)
  from ne show "to_remove (tubules (splitTubule s (Fin 0) c) ! 0)"
    by (simp add: split split_at_sizes)
qed

text \<open>
  The theorem at the empty substrate, where nothing happens, and at \<open>zero_example\<close>,
  whose one tubule has length zero and is split.
\<close>

theorem splitTubule_zero_length_witness:
  "tubules (Substrate (Fin 400) (Fin 400) no_substrate_kargs) = [] \<and>
   splitTubule (Substrate (Fin 400) (Fin 400) no_substrate_kargs) (Fin 0) 1 =
     Substrate (Fin 400) (Fin 400) no_substrate_kargs \<and>
   map t_norm (tubules zero_example) = [Fin 0] \<and>
   sys_len zero_example = Fin 0 \<and>
   length (junctions (splitTubule zero_example (Fin 0) 1)) = 4 \<and>
   length (tubules (splitTubule zero_example (Fin 0) 1)) = 4 \<and>
   to_remove (tubules (splitTubule zero_example (Fin 0) 1) ! 0)"
proof -
  have e: "tubules (Substrate (Fin 400) (Fin 400) no_substrate_kargs) = []"
    by (simp add: Substrate_def)
  then have he: "\<forall>u\<in>set (tubules (Substrate (Fin 400) (Fin 400) no_substrate_kargs)).
      t_norm u = Fin 0"
    by simp
  have z: "map t_norm (tubules zero_example) = [Fin 0]"
    "length (junctions zero_example) = 2" "length (tubules zero_example) = 1"
    by (simp_all add: zero_example_explicit made_defs)
  then have hz: "\<forall>u\<in>set (tubules zero_example). t_norm u = Fin 0"
    by (cases "tubules zero_example") auto
  from z(3) have ne: "tubules zero_example \<noteq> []" by auto
  from splitTubule_zero_length [OF he, of 1] e
  have empty: "splitTubule (Substrate (Fin 400) (Fin 400) no_substrate_kargs) (Fin 0) 1 =
      Substrate (Fin 400) (Fin 400) no_substrate_kargs"
    by blast
  from splitTubule_zero_length [OF hz, of 1] ne
  have "sys_len zero_example = Fin 0"
    and "length (junctions (splitTubule zero_example (Fin 0) 1)) =
      length (junctions zero_example) + 2"
    and "length (tubules (splitTubule zero_example (Fin 0) 1)) =
      length (tubules zero_example) + 3"
    and "to_remove (tubules (splitTubule zero_example (Fin 0) 1) ! 0)"
    by blast+
  with e empty z show ?thesis by simp
qed

text \<open>
  C7 as stated fails at \<open>zero_example\<close>: the system length is zero, and
  \<open>splitTubule\<close> takes the two junctions and one tubule to four junctions and four
  tubules, with the old tubule marked for removal.
\<close>

theorem splitTubule_zero_length_counterexample:
  "sys_len zero_example = Fin 0 \<and>
   length (junctions zero_example) = 2 \<and> length (tubules zero_example) = 1 \<and>
   length (junctions (splitTubule zero_example (Fin 0) 1)) = 4 \<and>
   length (tubules (splitTubule zero_example (Fin 0) 1)) = 4 \<and>
   \<not> to_remove (tubules zero_example ! 0) \<and>
   to_remove (tubules (splitTubule zero_example (Fin 0) 1) ! 0) \<and>
   splitTubule zero_example (Fin 0) 1 \<noteq> zero_example"
proof -
  have z: "sys_len zero_example = Fin 0"
    "length (junctions zero_example) = 2" "length (tubules zero_example) = 1"
    "\<not> to_remove (tubules zero_example ! 0)"
    by (simp_all add: sys_len_def of_py_int_def zero_example_explicit made_defs)
  have "tubules zero_example = [tubules zero_example ! 0]"
    using z(3) by (cases "tubules zero_example") auto
  moreover have "t_norm (tubules zero_example ! 0) = Fin 0"
    by (simp add: zero_example_explicit made_defs)
  ultimately have split: "splitTubule zero_example (Fin 0) 1 =
      split_at zero_example (Fin 0) 1 0 (tubules zero_example ! 0)"
    by (metis (no_types) splitTubule_def split_loop.simps(2) fgreater_Fin less_irrefl)
  have "length (junctions (splitTubule zero_example (Fin 0) 1)) = 4"
    "length (tubules (splitTubule zero_example (Fin 0) 1)) = 4"
    "to_remove (tubules (splitTubule zero_example (Fin 0) 1) ! 0)"
    by (simp_all add: split split_at_sizes z)
  with z show ?thesis
    by auto
qed

subsection \<open>Wrap bookkeeping\<close>

text \<open>
  C8. If the crossover of a tubule and the cross fields of its two ends are within
  \<open>[-1, 1]\<close>, they still are after \<open>wrapSubstrate\<close> on that tubule.
\<close>

theorem wrapSubstrate_bounds:
  assumes "i < length (tubules s)"
    and "j1 (tubules s ! i) < length (junctions s)"
    and "j2 (tubules s ! i) < length (junctions s)"
    and "- 1 \<le> crossover (tubules s ! i)" "crossover (tubules s ! i) \<le> 1"
    and "- 1 \<le> cross (junctions s ! j1 (tubules s ! i))"
        "cross (junctions s ! j1 (tubules s ! i)) \<le> 1"
    and "- 1 \<le> cross (junctions s ! j2 (tubules s ! i))"
        "cross (junctions s ! j2 (tubules s ! i)) \<le> 1"
  shows "- 1 \<le> crossover (tubules (wrapSubstrate s i) ! i) \<and>
         crossover (tubules (wrapSubstrate s i) ! i) \<le> 1 \<and>
         - 1 \<le> cross (junctions (wrapSubstrate s i) ! j1 (tubules s ! i)) \<and>
         cross (junctions (wrapSubstrate s i) ! j1 (tubules s ! i)) \<le> 1 \<and>
         - 1 \<le> cross (junctions (wrapSubstrate s i) ! j2 (tubules s ! i)) \<and>
         cross (junctions (wrapSubstrate s i) ! j2 (tubules s ! i)) \<le> 1"
  using assms
  by (auto simp: wrapSubstrate_def Let_def set_cross_def step_up_def step_down_def
      nth_list_update split: if_splits)

text \<open>
  The theorem at \<open>wrap_example\<close>, whose tubule starts beyond the right edge:
  the crossover goes from 0 to -1 and the cross of the first end from 0 to 1.
\<close>

theorem wrapSubstrate_bounds_witness:
  "crossover (tubules wrap_example ! 0) = 0 \<and>
   cross (junctions wrap_example ! 0) = 0 \<and> cross (junctions wrap_example ! 1) = 0 \<and>
   - 1 \<le> crossover (tubules (wrapSubstrate wrap_example 0) ! 0) \<and>
   crossover (tubules (wrapSubstrate wrap_example 0) ! 0) \<le> 1 \<and>
   - 1 \<le> cross (junctions (wrapSubstrate wrap_example 0) ! 0) \<and>
   cross (junctions (wrapSubstrate wrap_example 0) ! 0) \<le> 1 \<and>
   - 1 \<le> cross (junctions (wrapSubstrate wrap_example 0) ! 1) \<and>
   cross (junctions (wrapSubstrate wrap_example 0) ! 1) \<le> 1"
proof -
  have e: "length (tubules wrap_example) = 1" "length (junctions wrap_example) = 2"
    "j1 (tubules wrap_example ! 0) = 0" "j2 (tubules wrap_example ! 0) = 1"
    "crossover (tubules wrap_example ! 0) = 0"
    "cross (junctions wrap_example ! 0) = 0" "cross (junctions wrap_example ! 1) = 0"
    by (simp_all add: wrap_example_def build_defs cong: prod.case_cong_weak let_weak_cong)
  from wrapSubstrate_bounds [of 0 wrap_example] e show ?thesis
    by simp
qed

subsection \<open>Overrides of the tubule factory\<close>

lemma addTubule_fields:
  "t_hookes (tubules (fst (addTubule s a b k)) ! snd (addTubule s a b k)) =
     kget (tk_hookes k) (hookes s)"
  "t_growth (tubules (fst (addTubule s a b k)) ! snd (addTubule s a b k)) =
     kget (tk_growth k) (growth s)"
  "t_width (tubules (fst (addTubule s a b k)) ! snd (addTubule s a b k)) =
     kget (tk_growth k) (width s)"
  "crossover (tubules (fst (addTubule s a b k)) ! snd (addTubule s a b k)) =
     kget (tk_crossover k) 0"
  by (simp_all add: addTubule_def Let_def)

text \<open>
  C9 at a failing input. On \<open>tip_example\<close>, whose width is 400,
  \<open>addTubule(j0, j2, width=7)\<close> returns a tubule of width 400, and
  \<open>addTubule(j0, j2, growth=3)\<close> one of width 3: the width is read from the key
  \<open>growth\<close>. The overrides of \<open>hookes\<close>, \<open>growth\<close> and \<open>crossover\<close> are applied.
\<close>

theorem addTubule_width_override:
  "width tip_example = Fin 400 \<and>
   t_width (tubules (fst (addTubule tip_example 0 2 (no_tubule_kargs\<lparr>tk_width := Some (Fin 7)\<rparr>))) !
              snd (addTubule tip_example 0 2 (no_tubule_kargs\<lparr>tk_width := Some (Fin 7)\<rparr>))) =
     Fin 400 \<and>
   t_width (tubules (fst (addTubule tip_example 0 2 (no_tubule_kargs\<lparr>tk_growth := Some (Fin 3)\<rparr>))) !
              snd (addTubule tip_example 0 2 (no_tubule_kargs\<lparr>tk_growth := Some (Fin 3)\<rparr>))) =
     Fin 3 \<and>
   t_growth (tubules (fst (addTubule tip_example 0 2 (no_tubule_kargs\<lparr>tk_growth := Some (Fin 3)\<rparr>))) !
              snd (addTubule tip_example 0 2 (no_tubule_kargs\<lparr>tk_growth := Some (Fin 3)\<rparr>))) =
     Fin 3"
  by (simp add: addTubule_fields kget_def no_tubule_kargs_def)
    (simp add: tip_example_explicit made_defs)

subsection \<open>Anchored junctions\<close>

text \<open>
  C10. For a junction with \<open>anchor\<close> set, \<open>moveJunction\<close> leaves \<open>velocity\<close> and
  \<open>cross\<close> as they are; \<open>position\<close> is unchanged when \<open>flowing\<close> is off, and
  when it is on \<open>flowrate\<close> is still added to \<open>position\<close>: the anchor does not
  stop the drift.
\<close>

theorem moveJunction_anchored:
  assumes "anchor j"
  shows "velocity (moveJunction j) = velocity j \<and>
         cross (moveJunction j) = cross j \<and>
         position (moveJunction j) =
           (if j_flowing j then vadd (position j) (j_flowrate j) else position j)"
  using assms by (simp add: moveJunction_def Let_def)

theorem moveJunction_anchored_witness:
  "anchor ((Junction (Fin 1) (Fin 2))
      \<lparr>anchor := True, j_flowing := True, j_flowrate := (Fin 2, Fin 3),
       velocity := (Fin 5, Fin 5), cross := 1\<rparr>) \<and>
   velocity (moveJunction ((Junction (Fin 1) (Fin 2))
      \<lparr>anchor := True, j_flowing := True, j_flowrate := (Fin 2, Fin 3),
       velocity := (Fin 5, Fin 5), cross := 1\<rparr>)) = (Fin 5, Fin 5) \<and>
   cross (moveJunction ((Junction (Fin 1) (Fin 2))
      \<lparr>anchor := True, j_flowing := True, j_flowrate := (Fin 2, Fin 3),
       velocity := (Fin 5, Fin 5), cross := 1\<rparr>)) = 1 \<and>
   position (moveJunction ((Junction (Fin 1) (Fin 2))
      \<lparr>anchor := True, j_flowing := True, j_flowrate := (Fin 2, Fin 3),
       velocity := (Fin 5, Fin 5), cross := 1\<rparr>)) = (Fin 3, Fin 5)"
  using moveJunction_anchored
    [of "(Junction (Fin 1) (Fin 2))
      \<lparr>anchor := True, j_flowing := True, j_flowrate := (Fin 2, Fin 3),
       velocity := (Fin 5, Fin 5), cross := 1\<rparr>"]
  by (simp add: Junction_def vadd_def)

end
